theory Spec2Isabelle
  imports Main
begin

section \<open>JavaScript strings\<close>

text \<open>
  A JavaScript string is modelled as a \<^typ>\<open>string\<close>: a list of code units, here the
  code units below 256. \<open>String.prototype.trim\<close> removes the white space and line
  terminator code units from both ends; in this range they are TAB, LF, VT, FF, CR,
  SPACE and NBSP.
\<close>

definition js_whitespace :: "char \<Rightarrow> bool" where
  "js_whitespace c \<longleftrightarrow>
     c \<in> {CHR 0x09, CHR 0x0A, CHR 0x0B, CHR 0x0C, CHR 0x0D, CHR 0x20, CHR 0xA0}"

definition trim :: "string \<Rightarrow> string" where
  "trim s = rev (dropWhile js_whitespace (rev (dropWhile js_whitespace s)))"

text \<open>
  \<open>s.split(sep)\<close> for a separator of one code unit: the pieces between the occurrences
  of the separator, in order. The result of splitting the empty string is the one-element
  array \<open>[""]\<close>.
\<close>

fun split :: "char \<Rightarrow> string \<Rightarrow> string list" where
  "split sep [] = [[]]"
| "split sep (c # cs) =
     (if c = sep then [] # split sep cs
      else (case split sep cs of
              [] \<Rightarrow> [[c]]
            | piece # pieces \<Rightarrow> (c # piece) # pieces))"

text \<open>
  Reading an array at an index: \<open>row[i]\<close> is \<open>undefined\<close> (here \<open>None\<close>) out of range.
  \<open>v || ""\<close> replaces every falsy value, that is \<open>undefined\<close> and the empty string, by
  the empty string.
\<close>

definition js_index :: "'a list \<Rightarrow> nat \<Rightarrow> 'a option" where
  "js_index xs i = (if i < length xs then Some (xs ! i) else None)"

definition or_empty :: "string option \<Rightarrow> string" where
  "or_empty v = (case v of None \<Rightarrow> [] | Some s \<Rightarrow> if s = [] then [] else s)"


section \<open>The dataset browser (pages/Datasets.jsx)\<close>

record colDef =
  headerName :: string
  field :: string

text \<open>
  A row object \<open>obj\<close>, created as \<open>{}\<close> and filled by assignments
  \<open>obj[header] = cell\<close>, is the map of its own properties, from name to cell. An
  assignment stores the cell under the name and overwrites what was there, except under
  the name \<open>__proto__\<close>: that assignment reaches the setter a plain object inherits,
  which ignores a value that is a string, and nothing is stored.
\<close>

type_synonym rowObject = "string \<rightharpoonup> string"

definition assignProperty :: "rowObject \<Rightarrow> string \<Rightarrow> string \<Rightarrow> rowObject" where
  "assignProperty obj key v = (if key = ''__proto__'' then obj else obj(key \<mapsto> v))"

text \<open>The state of the page: one field for each \<open>useState\<close> of \<open>DatasetsPage\<close>.\<close>

record datasetsPage =
  datasetType :: string
  datasets :: "string list"
  rowData :: "rowObject list"
  columnDefs :: "colDef list"
  showModal :: bool
  selectedFile :: string

text \<open>
  What a handler of the page does, in program order: calls of the state setters and
  HTTP requests sent through axios.
\<close>

datatype pageEffect =
    SetDatasetType string
  | SetDatasets "string list"
  | SetRowData "rowObject list"
  | SetColumnDefs "colDef list"
  | SetShowModal bool
  | SetSelectedFile string
  | HttpGet string
  | HttpDelete string

fun applyPageEffect :: "pageEffect \<Rightarrow> datasetsPage \<Rightarrow> datasetsPage" where
  "applyPageEffect (SetDatasetType t) p = p\<lparr>datasetType := t\<rparr>"
| "applyPageEffect (SetDatasets ds) p = p\<lparr>datasets := ds\<rparr>"
| "applyPageEffect (SetRowData rs) p = p\<lparr>rowData := rs\<rparr>"
| "applyPageEffect (SetColumnDefs cs) p = p\<lparr>columnDefs := cs\<rparr>"
| "applyPageEffect (SetShowModal b) p = p\<lparr>showModal := b\<rparr>"
| "applyPageEffect (SetSelectedFile f) p = p\<lparr>selectedFile := f\<rparr>"
| "applyPageEffect (HttpGet url) p = p"
| "applyPageEffect (HttpDelete url) p = p"

text \<open>
  The state committed once the setter calls among the effects have been applied in order,
  from the state \<open>p\<close>.
\<close>

definition runPage :: "pageEffect list \<Rightarrow> datasetsPage \<Rightarrow> datasetsPage" where
  "runPage effects p = fold applyPageEffect effects p"

definition initialPage :: datasetsPage where
  "initialPage = \<lparr>datasetType = ''sft'', datasets = [], rowData = [], columnDefs = [],
     showModal = False, selectedFile = []\<rparr>"

subsection \<open>parseCSV\<close>

text \<open>\<open>csvText.trim().split("\n").map((row) => row.split(","))\<close>\<close>

definition csvRows :: "string \<Rightarrow> string list list" where
  "csvRows csvText = map (split CHR '','') (split CHR 0x0A (trim csvText))"

text \<open>
  \<open>headers.forEach((header, i) => { obj[header] = row[i] || ""; })\<close>, started at
  index \<open>i\<close> with the object built so far.
\<close>

fun forEachHeader :: "string list \<Rightarrow> nat \<Rightarrow> string list \<Rightarrow> rowObject \<Rightarrow> rowObject" where
  "forEachHeader [] i row obj = obj"
| "forEachHeader (header # rest) i row obj =
     forEachHeader rest (Suc i) row (assignProperty obj header (or_empty (js_index row i)))"

definition formatRow :: "string list \<Rightarrow> string list \<Rightarrow> rowObject" where
  "formatRow headers row = forEachHeader headers 0 row Map.empty"

text \<open>
  \<open>parseCSV\<close>: returns without touching the state when \<open>rows\<close> is empty, and otherwise
  calls \<open>setColumnDefs(cols)\<close> and \<open>setRowData(formattedRows)\<close>. The two
  \<open>console.log\<close> calls are left out.
\<close>

definition parseCSV :: "string \<Rightarrow> pageEffect list" where
  "parseCSV csvText =
     (let rows = csvRows csvText in
      if length rows = 0 then []
      else
        let headers = hd rows;
            dataRows = tl rows;
            cols = map (\<lambda>header. \<lparr>headerName = header, field = header\<rparr>) headers;
            formattedRows = map (formatRow headers) dataRows
        in [SetColumnDefs cols, SetRowData formattedRows])"


section \<open>JavaScript values\<close>

text \<open>
  A value decoded from a JSON body. The type \<open>'n\<close> stands for the JavaScript numbers
  (IEEE doubles); what the code needs of them is collected in \<open>jsRuntime\<close> below.
\<close>

datatype 'n json =
    JNull
  | JBool bool
  | JNum 'n
  | JStr string
  | JArr "'n json list"
  | JObj "(string \<times> 'n json) list"

datatype fileHandle = File string

text \<open>
  What \<open>formData\<close> holds under a field name: the string of an input element, the
  \<open>File\<close> of a file picker, or \<open>undefined\<close> (\<open>e.target.files[0]\<close> when no file
  is chosen).
\<close>

datatype formValue = Undefined | Str string | FileValue fileHandle

text \<open>
  The parts of the JavaScript runtime that are not modelled further: \<open>Number(v)\<close>, the
  string and the truth value of a number, and the message of the \<open>TypeError\<close> raised
  when a property of \<open>null\<close> is read.
\<close>

record 'n jsRuntime =
  toNumber :: "formValue \<Rightarrow> 'n"
  numberToString :: "'n \<Rightarrow> string"
  numberTruthy :: "'n \<Rightarrow> bool"
  nullPropertyError :: "string \<Rightarrow> string"

text \<open>Truthiness: \<open>undefined\<close>, \<open>null\<close>, \<open>false\<close>, \<open>""\<close>, zero and NaN are falsy.\<close>

fun formValueTruthy :: "formValue \<Rightarrow> bool" where
  "formValueTruthy Undefined = False"
| "formValueTruthy (Str s) = (s \<noteq> [])"
| "formValueTruthy (FileValue f) = True"

fun jsonTruthy :: "'n jsRuntime \<Rightarrow> 'n json option \<Rightarrow> bool" where
  "jsonTruthy rt None = False"
| "jsonTruthy rt (Some JNull) = False"
| "jsonTruthy rt (Some (JBool b)) = b"
| "jsonTruthy rt (Some (JNum n)) = numberTruthy rt n"
| "jsonTruthy rt (Some (JStr s)) = (s \<noteq> [])"
| "jsonTruthy rt (Some (JArr xs)) = True"
| "jsonTruthy rt (Some (JObj kvs)) = True"

text \<open>\<open>Array.prototype.join\<close> on strings.\<close>

fun join :: "string \<Rightarrow> string list \<Rightarrow> string" where
  "join sep [] = []"
| "join sep [x] = x"
| "join sep (x # y # ys) = x @ sep @ join sep (y # ys)"

text \<open>
  \<open>ToString\<close>, as \<open>new Error(v)\<close> applies it to its argument: an array is its elements
  joined by commas, with \<open>null\<close> elements as the empty string; an object is
  \<open>[object Object]\<close>.
\<close>

fun jsToString :: "'n jsRuntime \<Rightarrow> 'n json \<Rightarrow> string" where
  "jsToString rt JNull = ''null''"
| "jsToString rt (JBool b) = (if b then ''true'' else ''false'')"
| "jsToString rt (JNum n) = numberToString rt n"
| "jsToString rt (JStr s) = s"
| "jsToString rt (JArr xs) =
     join '','' (map (\<lambda>x. if x = JNull then [] else jsToString rt x) xs)"
| "jsToString rt (JObj kvs) = ''[object Object]''"

text \<open>
  Reading the property \<open>key\<close> of a decoded value, for a \<open>key\<close> that no prototype
  defines (the code reads \<open>detail\<close> and \<open>message\<close>): the own property of an object,
  where the last of several equal keys of the JSON text counts; \<open>undefined\<close> (here
  \<open>None\<close>) on every other value; a \<open>TypeError\<close> (here \<open>Inl\<close> of its message) on
  \<open>null\<close>.
\<close>

fun getProperty :: "'n jsRuntime \<Rightarrow> 'n json \<Rightarrow> string \<Rightarrow> string + 'n json option" where
  "getProperty rt JNull key = Inl (nullPropertyError rt key)"
| "getProperty rt (JObj kvs) key = Inr (map_of (rev kvs) key)"
| "getProperty rt v key = Inr None"


section \<open>The recipe registry (config/datasetConfigs)\<close>

record fieldDescriptor =
  name :: string
  label :: string
  type :: string
  options :: "string list option"
  step :: "string option"

text \<open>
  A recipe. Its display label is not read by any handler and is left out (two of the six
  labels contain an arrow, which is not a code unit below 256).
\<close>

record datasetConfig =
  endpoint :: string
  fields' :: "fieldDescriptor list"

definition textField :: "string \<Rightarrow> string \<Rightarrow> fieldDescriptor" where
  "textField n l = \<lparr>name = n, label = l, type = ''text'', options = None, step = None\<rparr>"

definition numberField :: "string \<Rightarrow> string \<Rightarrow> string option \<Rightarrow> fieldDescriptor" where
  "numberField n l s = \<lparr>name = n, label = l, type = ''number'', options = None, step = s\<rparr>"

definition selectField :: "string \<Rightarrow> string \<Rightarrow> string list \<Rightarrow> fieldDescriptor" where
  "selectField n l opts = \<lparr>name = n, label = l, type = ''select'', options = Some opts, step = None\<rparr>"

definition fileField :: "string \<Rightarrow> string \<Rightarrow> fieldDescriptor" where
  "fileField n l = \<lparr>name = n, label = l, type = ''file'', options = None, step = None\<rparr>"

definition textareaField :: "string \<Rightarrow> string \<Rightarrow> fieldDescriptor" where
  "textareaField n l = \<lparr>name = n, label = l, type = ''textarea'', options = None, step = None\<rparr>"

text \<open>The option list that the source writes out twice, for the two language fields.\<close>

definition languageOptions :: "string list" where
  "languageOptions =
     [''Arabic'', ''Azerbaijani'', ''Basque'', ''Catalan'', ''Chinese'', ''Czech'',
      ''Danish'', ''Dutch'', ''English'', ''Esperanto'', ''Finnish'', ''French'',
      ''Galician'', ''German'', ''Greek'', ''Hebrew'', ''Hindi'', ''Hungarian'',
      ''Indonesian'', ''Irish'', ''Italian'', ''Japanese'', ''Kyrgyz'', ''Korean'',
      ''Malay'', ''Persian'', ''Polish'', ''Portuguese'', ''Portuguese (Brazil)'',
      ''Russian'', ''Slovak'', ''Spanish'', ''Swedish'', ''Turkish'', ''Ukrainian'',
      ''Urdu'']"

definition sft :: datasetConfig where
  "sft = \<lparr>endpoint = ''/generate/sft'', fields' =
     [textField ''topic'' ''Topic'',
      textField ''model'' ''Model'',
      selectField ''style'' ''Style''
        [''highly friendly'', ''begineer friendly'', ''problem-solving oriented'',
         ''conversational''],
      numberField ''num_pairs'' ''Number of Pairs'' None,
      textField ''language'' ''Language'',
      numberField ''temperature'' ''Temperature'' (Some ''0.1''),
      textField ''output_name'' ''Output Name'']\<rparr>"

definition nl_sql :: datasetConfig where
  "nl_sql = \<lparr>endpoint = ''/generate/nl_sql'', fields' =
     [fileField ''schema_file'' ''Schema File (.json)'',
      textField ''model'' ''Model'',
      numberField ''num_samples'' ''Number of Samples'' None,
      textField ''output_name'' ''Output Name'']\<rparr>"

definition rag_qa :: datasetConfig where
  "rag_qa = \<lparr>endpoint = ''/generate/rag_qa'', fields' =
     [fileField ''context_file'' ''Context File (.txt / .pdf)'',
      textField ''model'' ''Model'',
      selectField ''difficulty'' ''Difficulty'' [''easy'', ''medium'', ''hard''],
      numberField ''num_pairs'' ''Number of QA Pairs'' None,
      textField ''output_name'' ''Output Name'']\<rparr>"

definition classification :: datasetConfig where
  "classification = \<lparr>endpoint = ''/generate/classification'', fields' =
     [textareaField ''task_description'' ''Task Description'',
      textField ''model'' ''Model'',
      numberField ''num_samples'' ''Number of Samples'' None,
      textField ''output_name'' ''Output Name'']\<rparr>"

definition text_to_code :: datasetConfig where
  "text_to_code = \<lparr>endpoint = ''/generate/text_to_code'', fields' =
     [textField ''domain'' ''Domain'',
      textField ''programming_language'' ''Programming Language'',
      textField ''model'' ''Model'',
      numberField ''num_samples'' ''Number of Samples'' None,
      numberField ''temperature'' ''Temperature'' (Some ''0.1''),
      textField ''output_name'' ''Output Name'']\<rparr>"

definition multilingual :: datasetConfig where
  "multilingual = \<lparr>endpoint = ''/generate/multilingual'', fields' =
     [textField ''topic'' ''Topic'',
      selectField ''source_language'' ''Source Language'' languageOptions,
      selectField ''destination_language'' ''Target Language'' languageOptions,
      textField ''model'' ''Generation Model'',
      numberField ''num_samples'' ''Number of Samples'' None,
      numberField ''temperature'' ''Temperature'' (Some ''0.1''),
      textField ''output_name'' ''Output Name'']\<rparr>"

text \<open>\<open>datasetConfigs[key]\<close>: \<open>undefined\<close> (here \<open>None\<close>) for any other key.\<close>

definition datasetConfigs :: "string \<rightharpoonup> datasetConfig" where
  "datasetConfigs =
     map_of [(''sft'', sft), (''nl_sql'', nl_sql), (''rag_qa'', rag_qa),
             (''classification'', classification), (''text_to_code'', text_to_code),
             (''multilingual'', multilingual)]"


section \<open>The form (pages/Dashboard.jsx)\<close>

text \<open>The message shown under the form: \<open>{ type: ..., text: ... }\<close>.\<close>

record 'n statusMessage =
  type :: string
  text' :: "'n json option"

text \<open>The state of the component: one field for each \<open>useState\<close> of \<open>Dashboard\<close>.\<close>

record 'n dashboard =
  formData :: "string \<rightharpoonup> formValue"
  loading :: bool
  message :: "'n statusMessage option"

definition initialDashboard :: "'n dashboard" where
  "initialDashboard = \<lparr>formData = Map.empty, loading = False, message = None\<rparr>"

text \<open>
  An entry of the multipart payload. \<open>FormData.append\<close> keeps a \<open>File\<close> and turns
  every other value into a string.
\<close>

datatype entryValue = EString string | EFile fileHandle

type_synonym formEntry = "string \<times> entryValue"

fun appendValue :: "formValue \<Rightarrow> entryValue" where
  "appendValue Undefined = EString ''undefined''"
| "appendValue (Str s) = EString s"
| "appendValue (FileValue f) = EFile f"

text \<open>
  What a handler of the form does, in program order: calls of the state setters, and the
  \<open>fetch\<close> of a POST request with its URL and body.
\<close>

datatype 'n effect =
    SetFormData "string \<rightharpoonup> formValue"
  | SetLoading bool
  | SetMessage "'n statusMessage option"
  | Post string "formEntry list"

fun applyEffect :: "'n effect \<Rightarrow> 'n dashboard \<Rightarrow> 'n dashboard" where
  "applyEffect (SetFormData fd) d = d\<lparr>formData := fd\<rparr>"
| "applyEffect (SetLoading b) d = d\<lparr>loading := b\<rparr>"
| "applyEffect (SetMessage m) d = d\<lparr>message := m\<rparr>"
| "applyEffect (Post url body) d = d"

text \<open>
  A handler runs synchronously up to an \<open>await\<close>, yields there, and goes on in a later
  run when the awaited promise has settled. React (from version 18, for every run) does not
  apply a setter call at once: it queues the calls made during a run and commits them
  together when the run has ended.
  Every call of these handlers passes a value, so the state committed after a run is the
  state committed before it with the calls of the run applied in order. \<open>runDashboard\<close>
  is that state; for the effects of several runs written one after the other it is the
  state committed after the last of them.
\<close>

definition runDashboard :: "'n effect list \<Rightarrow> 'n dashboard \<Rightarrow> 'n dashboard" where
  "runDashboard effects d = fold applyEffect effects d"



text \<open>The POST requests among the effects, in order.\<close>

fun posts :: "'n effect list \<Rightarrow> (string \<times> formEntry list) list" where
  "posts [] = []"
| "posts (Post url body # es) = (url, body) # posts es"
| "posts (e # es) = posts es"


subsection \<open>handleChange\<close>

text \<open>The part of a change event the handler reads: \<open>e.target.value\<close> and \<open>e.target.files\<close>.\<close>

record changeEvent =
  targetValue :: string
  targetFiles :: "fileHandle list"

definition handleChange :: "changeEvent \<Rightarrow> fieldDescriptor \<Rightarrow> 'n dashboard \<Rightarrow> 'n effect list" where
  "handleChange e fld d =
     (if fieldDescriptor.type fld = ''file''
      then [SetFormData ((formData d)(name fld \<mapsto>
              (case js_index (targetFiles e) 0 of None \<Rightarrow> Undefined | Some f \<Rightarrow> FileValue f)))]
      else [SetFormData ((formData d)(name fld \<mapsto> Str (targetValue e)))])"

subsection \<open>handleSubmit\<close>

text \<open>
  \<open>formData[field.name]\<close>: \<open>undefined\<close> for a name that was never stored. No field
  name of the registry is the name of a property that a plain object inherits.
\<close>

definition lookupField :: "(string \<rightharpoonup> formValue) \<Rightarrow> string \<Rightarrow> formValue" where
  "lookupField fd key = (case fd key of None \<Rightarrow> Undefined | Some v \<Rightarrow> v)"

text \<open>
  The \<open>forEach\<close> over \<open>config.fields\<close> that fills \<open>form\<close>. A falsy value throws
  \<open>new Error(`${field.label} is required`)\<close>, here \<open>Inl\<close> of the message, and ends
  the loop.
\<close>

fun appendFields ::
  "'n jsRuntime \<Rightarrow> (string \<rightharpoonup> formValue) \<Rightarrow> fieldDescriptor list \<Rightarrow> formEntry list
     \<Rightarrow> string + formEntry list" where
  "appendFields rt fd [] form = Inr form"
| "appendFields rt fd (fld # rest) form =
     (if \<not> formValueTruthy (lookupField fd (name fld))
      then Inl (label fld @ '' is required'')
      else if name fld = ''num_pairs''
      then appendFields rt fd rest
             (form @ [(name fld,
                EString (numberToString rt (toNumber rt (lookupField fd (name fld)))))])
      else appendFields rt fd rest
             (form @ [(name fld, appendValue (lookupField fd (name fld)))]))"

text \<open>
  How the request goes, as seen by the handler: \<open>fetch\<close> never settles, or rejects with
  an error, or resolves with a response, whose \<open>ok\<close> flag is read and whose body
  \<open>response.json()\<close> either rejects (with an error message) or decodes.
\<close>

datatype 'n bodyOutcome = NotJson string | Json "'n json"

datatype 'n fetchOutcome = NeverSettles | Rejected string | Response bool "'n bodyOutcome"

text \<open>The \<open>catch\<close> block followed by the \<open>finally\<close> block, for a caught error with this message.\<close>

definition catchFinally :: "string \<Rightarrow> 'n effect list" where
  "catchFinally m =
     [SetMessage (Some \<lparr>type = ''error'', text' = Some (JStr m)\<rparr>), SetLoading False]"

text \<open>\<open>result.detail || "Backend error"\<close>\<close>

definition detailOrDefault :: "'n jsRuntime \<Rightarrow> 'n json option \<Rightarrow> 'n json" where
  "detailOrDefault rt detail =
     (if jsonTruthy rt detail
      then (case detail of Some v \<Rightarrow> v | None \<Rightarrow> JStr ''Backend error'')
      else JStr ''Backend error'')"

text \<open>
  \<open>handleSubmit\<close>, run by run, with the value of \<open>import.meta.env.VITE_API_BASE_URL\<close>
  and the behaviour of the network as parameters. The first run goes from the click to the
  first \<open>await\<close>: it ends after the call of \<open>fetch\<close>, or, when a field is missing,
  after the \<open>catch\<close> and \<open>finally\<close> blocks, since the error is thrown before any
  \<open>await\<close>. When \<open>fetch\<close> rejects, the second run is the \<open>catch\<close> and
  \<open>finally\<close> blocks. When it resolves, the second run calls \<open>response.json()\<close> and
  yields again, and the third run is the rest of the handler. There is no run after the
  first when the request never settles.
\<close>

definition handleSubmitRuns ::
  "'n jsRuntime \<Rightarrow> string \<Rightarrow> (string \<Rightarrow> formEntry list \<Rightarrow> 'n fetchOutcome)
     \<Rightarrow> datasetConfig \<Rightarrow> 'n dashboard \<Rightarrow> 'n effect list list" where
  "handleSubmitRuns rt API_BASE fetch config d =
     (case appendFields rt (formData d) (fields' config) [] of
        Inl m \<Rightarrow> [SetLoading True # SetMessage None # catchFinally m]
      | Inr form \<Rightarrow>
          [SetLoading True, SetMessage None, Post (API_BASE @ endpoint config) form] #
          (case fetch (API_BASE @ endpoint config) form of
             NeverSettles \<Rightarrow> []
           | Rejected m \<Rightarrow> [catchFinally m]
           | Response ok body \<Rightarrow>
               [[],
                (case body of
                   NotJson m \<Rightarrow> catchFinally m
                 | Json result \<Rightarrow>
                     if \<not> ok
                     then (case getProperty rt result ''detail'' of
                             Inl m \<Rightarrow> catchFinally m
                           | Inr detail \<Rightarrow>
                               catchFinally (jsToString rt (detailOrDefault rt detail)))
                     else (case getProperty rt result ''message'' of
                             Inl m \<Rightarrow> catchFinally m
                           | Inr msg \<Rightarrow>
                               [SetMessage (Some \<lparr>type = ''success'', text' = msg\<rparr>),
                                SetLoading False]))]))"

text \<open>The effects of \<open>handleSubmit\<close> in program order, over all its runs.\<close>

definition handleSubmit ::
  "'n jsRuntime \<Rightarrow> string \<Rightarrow> (string \<Rightarrow> formEntry list \<Rightarrow> 'n fetchOutcome)
     \<Rightarrow> datasetConfig \<Rightarrow> 'n dashboard \<Rightarrow> 'n effect list" where
  "handleSubmit rt API_BASE fetch config d =
     concat (handleSubmitRuns rt API_BASE fetch config d)"


section \<open>The navigation shell (App.jsx, components/Sidebar.jsx)\<close>

text \<open>
  The state of \<open>App\<close>, and with it the state of the \<open>Dashboard\<close> component it renders.
  \<open>App\<close> renders \<open><Dashboard selectedDataset={selectedDataset} />\<close> without a
  \<open>key\<close> when \<open>activePage\<close> is \<open>generate\<close>, and \<open><Datasets />\<close> otherwise. React
  keeps the state of a component for as long as an element of the same type is rendered at
  the same place, whatever its props, and creates the state anew, from the initial values
  given to \<open>useState\<close>, when the component is mounted again.
\<close>

record 'n app =
  selectedDataset :: string
  activePage :: string
  mountedDashboard :: "'n dashboard option"

definition render :: "'n app \<Rightarrow> 'n app" where
  "render a =
     (if activePage a = ''generate''
      then (case mountedDashboard a of
              None \<Rightarrow> a\<lparr>mountedDashboard := Some initialDashboard\<rparr>
            | Some d \<Rightarrow> a)
      else a\<lparr>mountedDashboard := None\<rparr>)"

definition initialApp :: "'n app" where
  "initialApp =
     render \<lparr>selectedDataset = ''sft'', activePage = ''generate'', mountedDashboard = None\<rparr>"

text \<open>The click on a recipe of the sidebar: \<open>setSelectedDataset(key); setActivePage("generate")\<close>.\<close>

definition selectRecipe :: "string \<Rightarrow> 'n app \<Rightarrow> 'n app" where
  "selectRecipe key a = render (a\<lparr>selectedDataset := key, activePage := ''generate''\<rparr>)"

text \<open>The click on "View Datasets": \<open>setActivePage("datasets")\<close>.\<close>

definition viewDatasets :: "'n app \<Rightarrow> 'n app" where
  "viewDatasets a = render (a\<lparr>activePage := ''datasets''\<rparr>)"

text \<open>A change event on the control of a field of the mounted form.\<close>

definition editField :: "changeEvent \<Rightarrow> fieldDescriptor \<Rightarrow> 'n app \<Rightarrow> 'n app" where
  "editField e fld a =
     a\<lparr>mountedDashboard :=
         map_option (\<lambda>d. runDashboard (handleChange e fld d) d) (mountedDashboard a)\<rparr>"


section \<open>The handlers of the dataset browser\<close>

definition BASE_URL :: string where
  "BASE_URL = ''http://localhost:8000''"

text \<open>
  How an axios request goes: it never settles, it rejects (axios rejects on a status
  outside 2xx as well), or it resolves; for the list request, with the value of
  \<open>res.data.datasets\<close>.
\<close>

datatype listOutcome = ListNeverSettles | ListRejected | ListResolved "string list"

datatype deleteOutcome = DeleteNeverSettles | DeleteRejected | DeleteResolved

text \<open>
  \<open>fetchDatasets\<close>, as created by the render with state \<open>p\<close>, run by run: it
  reads the \<open>datasetType\<close> of that render, whatever is selected when it is called. The
  first run sends the request and yields at the \<open>await\<close>; the second, when the request
  has resolved, calls \<open>setDatasets\<close>. Nothing catches a rejection.
\<close>

definition fetchDatasetsRuns ::
  "(string \<Rightarrow> listOutcome) \<Rightarrow> datasetsPage \<Rightarrow> pageEffect list list" where
  "fetchDatasetsRuns get p =
     [HttpGet (BASE_URL @ ''/datasets?dataset_type='' @ datasetType p)] #
     (case get (BASE_URL @ ''/datasets?dataset_type='' @ datasetType p) of
        ListResolved ds \<Rightarrow> [[SetDatasets ds]]
      | _ \<Rightarrow> [])"

text \<open>The effects of \<open>fetchDatasets\<close> in program order, over its runs.\<close>

definition fetchDatasets :: "(string \<Rightarrow> listOutcome) \<Rightarrow> datasetsPage \<Rightarrow> pageEffect list" where
  "fetchDatasets get p = concat (fetchDatasetsRuns get p)"

text \<open>
  The selector's \<open>onChange\<close>, \<open>setDatasetType(e.target.value)\<close>, followed by the
  effect \<open>useEffect(() => { fetchDatasets(); }, [datasetType])\<close>: the effect runs after
  the render that follows, and only when \<open>datasetType\<close> has changed.
\<close>

definition changeDatasetType ::
  "(string \<Rightarrow> listOutcome) \<Rightarrow> string \<Rightarrow> datasetsPage \<Rightarrow> pageEffect list" where
  "changeDatasetType get key p =
     (if key = datasetType p then [SetDatasetType key]
      else SetDatasetType key # fetchDatasets get (p\<lparr>datasetType := key\<rparr>))"

text \<open>
  \<open>deleteDataset\<close>, as created by the render with state \<open>p\<close>, run by run. The
  first run sends the DELETE request and yields at the \<open>await\<close>. When the request has
  resolved, the handler goes on with \<open>fetchDatasets()\<close>, the function of the same
  render. Nothing follows when the request rejects or never settles.
\<close>

definition deleteDataset ::
  "(string \<Rightarrow> deleteOutcome) \<Rightarrow> (string \<Rightarrow> listOutcome) \<Rightarrow> string \<Rightarrow> datasetsPage
     \<Rightarrow> pageEffect list list" where
  "deleteDataset del get filename p =
     [HttpDelete (BASE_URL @ ''/datasets/'' @ datasetType p @ ''/'' @ filename)] #
     (case del (BASE_URL @ ''/datasets/'' @ datasetType p @ ''/'' @ filename) of
        DeleteResolved \<Rightarrow> fetchDatasetsRuns get p
      | _ \<Rightarrow> [])"

text \<open>The list requests and the delete requests among the effects, in order.\<close>

fun listFetches :: "pageEffect list \<Rightarrow> string list" where
  "listFetches [] = []"
| "listFetches (HttpGet url # es) = url # listFetches es"
| "listFetches (e # es) = listFetches es"

fun deleteRequests :: "pageEffect list \<Rightarrow> string list" where
  "deleteRequests [] = []"
| "deleteRequests (HttpDelete url # es) = url # deleteRequests es"
| "deleteRequests (e # es) = deleteRequests es"


section \<open>Inputs for evaluation\<close>

text \<open>
  A runtime to evaluate examples with. Its numbers are the natural numbers and NaN
  (\<open>None\<close>); it agrees with JavaScript on strings of decimal digits, which is all the
  examples use, and takes every other string to NaN.
\<close>

fun parseDigits :: "string \<Rightarrow> nat \<Rightarrow> nat option" where
  "parseDigits [] acc = Some acc"
| "parseDigits (c # cs) acc =
     (if 48 \<le> (of_char c :: nat) \<and> (of_char c :: nat) \<le> 57
      then parseDigits cs (10 * acc + (of_char c - 48))
      else None)"

function showNat :: "nat \<Rightarrow> string" where
  "showNat n =
     (if n < 10 then [''0123456789'' ! n]
      else showNat (n div 10) @ [''0123456789'' ! (n mod 10)])"
  by pat_completeness auto
termination
  by (relation "measure id") auto

declare showNat.simps [simp del]

definition sampleRuntime :: "nat option jsRuntime" where
  "sampleRuntime =
     \<lparr>toNumber = (\<lambda>v. case v of Str s \<Rightarrow> parseDigits s 0 | _ \<Rightarrow> None),
      numberToString = (\<lambda>n. case n of None \<Rightarrow> ''NaN'' | Some k \<Rightarrow> showNat k),
      numberTruthy = (\<lambda>n. case n of None \<Rightarrow> False | Some k \<Rightarrow> k \<noteq> 0),
      nullPropertyError = (\<lambda>key. ''Cannot read properties of null (reading '' @ key @ '')'')\<rparr>"

text \<open>A filled form for the \<open>rag_qa\<close> recipe, and one for \<open>nl_sql\<close>.\<close>

definition ragQaForm :: "nat option dashboard" where
  "ragQaForm = initialDashboard\<lparr>formData :=
     [''context_file'' \<mapsto> FileValue (File ''notes.txt''),
      ''model'' \<mapsto> Str ''llama3'',
      ''difficulty'' \<mapsto> Str ''hard'',
      ''num_pairs'' \<mapsto> Str ''05'',
      ''output_name'' \<mapsto> Str ''qa'']\<rparr>"

definition nlSqlForm :: "nat option dashboard" where
  "nlSqlForm = initialDashboard\<lparr>formData :=
     [''schema_file'' \<mapsto> FileValue (File ''schema.json''),
      ''model'' \<mapsto> Str ''llama3'',
      ''num_samples'' \<mapsto> Str ''10'',
      ''output_name'' \<mapsto> Str ''queries'']\<rparr>"


text \<open>A network that answers every request with the same response.\<close>

definition respondsWith ::
  "bool \<Rightarrow> 'n bodyOutcome \<Rightarrow> string \<Rightarrow> formEntry list \<Rightarrow> 'n fetchOutcome" where
  "respondsWith ok body url form = Response ok body"

text \<open>A backend that lists two files for every type, and one on which every delete succeeds.\<close>

definition listsTwoFiles :: "string \<Rightarrow> listOutcome" where
  "listsTwoFiles url = ListResolved [''a.csv'', ''b.csv'']"

definition deleteSucceeds :: "string \<Rightarrow> deleteOutcome" where
  "deleteSucceeds url = DeleteResolved"

text \<open>A backend that lists one file for the type \<open>sft\<close> and another for every other type.\<close>

definition listsPerType :: "string \<Rightarrow> listOutcome" where
  "listsPerType url =
     (if url = BASE_URL @ ''/datasets?dataset_type=sft'' then ListResolved [''sft.csv'']
      else ListResolved [''other.csv''])"

text \<open>
  The page showing the list of the type \<open>sft\<close>, and the page after the user has then
  selected the type \<open>rag_qa\<close> and its list has arrived.
\<close>

definition sftListed :: datasetsPage where
  "sftListed = initialPage\<lparr>datasets := [''sft.csv'']\<rparr>"

definition typeChangedMeanwhile :: datasetsPage where
  "typeChangedMeanwhile = runPage (changeDatasetType listsPerType ''rag_qa'' sftListed) sftListed"


text \<open>The form of the first load after the user has typed a model name.\<close>

definition modelTyped :: "nat option app" where
  "modelTyped =
     editField \<lparr>targetValue = ''llama3'', targetFiles = []\<rparr> (textField ''model'' ''Model'')
       initialApp"


section \<open>Properties of the tabular preview\<close>

lemma split_not_Nil: "split sep s \<noteq> []"
  by (induction s) (auto split: list.splits)

lemma csvRows_not_Nil: "csvRows csvText \<noteq> []"
  by (simp add: csvRows_def split_not_Nil)

lemma parseCSV_unfold:
  "csvRows csvText = headers # dataRows \<Longrightarrow>
   parseCSV csvText =
     [SetColumnDefs (map (\<lambda>header. \<lparr>headerName = header, field = header\<rparr>) headers),
      SetRowData (map (formatRow headers) dataRows)]"
  by (simp add: parseCSV_def Let_def)

text \<open>
  The loop over the headers, in closed form: a name other than \<open>__proto__\<close> that occurs
  among the headers gets the cell at the position of its last occurrence; every other name
  keeps what it had.
\<close>

lemma forEachHeader_other:
  "k \<notin> set hs \<Longrightarrow> forEachHeader hs i row obj k = obj k"
  by (induction hs arbitrary: i obj) (auto simp: assignProperty_def)

lemma forEachHeader_proto:
  "forEachHeader hs i row obj ''__proto__'' = obj ''__proto__''"
  by (induction hs arbitrary: i obj) (auto simp: assignProperty_def)

lemma forEachHeader_last:
  "j < length hs \<Longrightarrow> hs ! j \<noteq> ''__proto__'' \<Longrightarrow>
   \<forall>j'. j < j' \<and> j' < length hs \<longrightarrow> hs ! j' \<noteq> hs ! j \<Longrightarrow>
   forEachHeader hs i row obj (hs ! j) = Some (or_empty (js_index row (i + j)))"
proof (induction hs arbitrary: i j obj)
  case Nil
  then show ?case by simp
next
  case (Cons h rest)
  show ?case
  proof (cases j)
    case 0
    have "h \<notin> set rest"
    proof
      assume "h \<in> set rest"
      then obtain n where n: "n < length rest" "rest ! n = h"
        by (auto simp: in_set_conv_nth)
      with Cons.prems(3) 0 have "(h # rest) ! Suc n \<noteq> (h # rest) ! 0"
        by (metis Suc_less_eq length_Cons zero_less_Suc)
      with n show False by simp
    qed
    with 0 Cons.prems(2) show ?thesis
      by (simp add: forEachHeader_other assignProperty_def)
  next
    case (Suc n)
    have n: "n < length rest" using Cons.prems(1) Suc by simp
    have p: "rest ! n \<noteq> ''__proto__''" using Cons.prems(2) Suc by simp
    have later: "\<forall>j'. n < j' \<and> j' < length rest \<longrightarrow> rest ! j' \<noteq> rest ! n"
    proof (intro allI impI)
      fix j' assume "n < j' \<and> j' < length rest"
      then have "Suc n < Suc j' \<and> Suc j' < length (h # rest)" by simp
      with Cons.prems(3) Suc have "(h # rest) ! Suc j' \<noteq> (h # rest) ! Suc n" by blast
      then show "rest ! j' \<noteq> rest ! n" by simp
    qed
    from Cons.IH [OF n p later] Suc show ?thesis by simp
  qed
qed

lemma dom_forEachHeader:
  "dom (forEachHeader hs i row obj) = dom obj \<union> (set hs - {''__proto__''})"
  by (induction hs arbitrary: i obj) (auto simp: assignProperty_def)

lemma dom_formatRow: "dom (formatRow headers row) = set headers - {''__proto__''}"
  by (simp add: formatRow_def dom_forEachHeader)

lemma formatRow_last:
  "j < length headers \<Longrightarrow> headers ! j \<noteq> ''__proto__'' \<Longrightarrow>
   \<forall>j'. j < j' \<and> j' < length headers \<longrightarrow> headers ! j' \<noteq> headers ! j \<Longrightarrow>
   formatRow headers row (headers ! j) = Some (or_empty (js_index row j))"
  using forEachHeader_last [of j headers 0 row Map.empty] by (simp add: formatRow_def)

text \<open>
  A cell missing from a short row is stored as the empty string, under any header other
  than \<open>__proto__\<close>.
\<close>

lemma forEachHeader_missing:
  "j < length hs \<Longrightarrow> hs ! j \<noteq> ''__proto__'' \<Longrightarrow> length row \<le> i + j \<Longrightarrow>
   forEachHeader hs i row obj (hs ! j) = Some []"
proof (induction hs arbitrary: i j obj)
  case Nil
  then show ?case by simp
next
  case (Cons h rest)
  show ?case
  proof (cases j)
    case 0
    show ?thesis
    proof (cases "h \<in> set rest")
      case False
      with 0 Cons.prems show ?thesis
        by (simp add: forEachHeader_other js_index_def or_empty_def assignProperty_def)
    next
      case True
      then obtain n where n: "n < length rest" "rest ! n = h"
        by (auto simp: in_set_conv_nth)
      have p: "rest ! n \<noteq> ''__proto__''" using Cons.prems(2) 0 n(2) by simp
      have "length row \<le> Suc i + n" using Cons.prems(3) 0 by simp
      from Cons.IH [OF n(1) p this] n(2) 0 show ?thesis by simp
    qed
  next
    case (Suc n)
    have "n < length rest" "rest ! n \<noteq> ''__proto__''" "length row \<le> Suc i + n"
      using Cons.prems Suc by simp_all
    from Cons.IH [OF this] Suc show ?thesis by simp
  qed
qed

lemma formatRow_missing:
  "j < length headers \<Longrightarrow> headers ! j \<noteq> ''__proto__'' \<Longrightarrow> length row \<le> j \<Longrightarrow>
   formatRow headers row (headers ! j) = Some []"
  using forEachHeader_missing [of j headers row 0 Map.empty] by (simp add: formatRow_def)

lemma runPage_parseCSV:
  "csvRows csvText = headers # dataRows \<Longrightarrow>
   runPage (parseCSV csvText) p =
     p\<lparr>columnDefs := map (\<lambda>header. \<lparr>headerName = header, field = header\<rparr>) headers,
       rowData := map (formatRow headers) dataRows\<rparr>"
  by (simp add: parseCSV_unfold runPage_def)

text \<open>
  Claim C1 as stated does not hold for every input: with the headers \<open>a\<close> and
  \<open>__proto__\<close> and the one-cell row \<open>1\<close>, the assignment \<open>obj["__proto__"] = ""\<close>
  stores nothing, and the row object has no entry under the second header.
\<close>

theorem parseCSV_fills_short_rows_counterexample:
  "csvRows ''a,__proto__\<newline>1'' = [[''a'', ''__proto__''], [''1'']]
   \<and> rowData (runPage (parseCSV ''a,__proto__\<newline>1'') initialPage) = [[''a'' \<mapsto> ''1'']]
   \<and> (rowData (runPage (parseCSV ''a,__proto__\<newline>1'') initialPage) ! 0) ''__proto__'' = None"
proof -
  have rows: "csvRows ''a,__proto__\<newline>1'' = [''a'', ''__proto__''] # [[''1'']]"
    by (simp add: csvRows_def trim_def js_whitespace_def)
  show ?thesis
    by (simp add: rows runPage_parseCSV [OF rows] formatRow_def js_index_def or_empty_def
        assignProperty_def)
qed

text \<open>
  Claim C1, amended. For the input \<open>"a,b\n1,2\n3"\<close> the preview has exactly the columns
  \<open>a\<close>, \<open>b\<close> and exactly the rows \<open>{a:"1", b:"2"}\<close> and \<open>{a:"3", b:""}\<close>. In
  general, whenever a data row has no cell at the position of a header whose name is not
  \<open>__proto__\<close>, the row object holds the empty string under that header.
\<close>

theorem parseCSV_fills_short_rows:
  "columnDefs (runPage (parseCSV ''a,b\<newline>1,2\<newline>3'') p) =
     [\<lparr>headerName = ''a'', field = ''a''\<rparr>, \<lparr>headerName = ''b'', field = ''b''\<rparr>]
   \<and> rowData (runPage (parseCSV ''a,b\<newline>1,2\<newline>3'') p) =
     [[''a'' \<mapsto> ''1'', ''b'' \<mapsto> ''2''], [''a'' \<mapsto> ''3'', ''b'' \<mapsto> '''']]
   \<and> (\<forall>csvText headers dataRows r i.
        csvRows csvText = headers # dataRows
        \<and> r < length dataRows \<and> i < length headers \<and> length (dataRows ! r) \<le> i
        \<and> headers ! i \<noteq> ''__proto__''
        \<longrightarrow> map field (columnDefs (runPage (parseCSV csvText) p)) = headers
          \<and> length (rowData (runPage (parseCSV csvText) p)) = length dataRows
          \<and> (rowData (runPage (parseCSV csvText) p) ! r) (headers ! i) = Some '''')"
proof (intro conjI allI impI)
  have rows: "csvRows ''a,b\<newline>1,2\<newline>3'' = [''a'', ''b''] # [[''1'', ''2''], [''3'']]"
    by (simp add: csvRows_def trim_def js_whitespace_def)
  show "columnDefs (runPage (parseCSV ''a,b\<newline>1,2\<newline>3'') p) =
     [\<lparr>headerName = ''a'', field = ''a''\<rparr>, \<lparr>headerName = ''b'', field = ''b''\<rparr>]"
    by (simp add: runPage_parseCSV [OF rows])
  show "rowData (runPage (parseCSV ''a,b\<newline>1,2\<newline>3'') p) =
     [[''a'' \<mapsto> ''1'', ''b'' \<mapsto> ''2''], [''a'' \<mapsto> ''3'', ''b'' \<mapsto> '''']]"
    by (simp add: runPage_parseCSV [OF rows] formatRow_def js_index_def or_empty_def
        assignProperty_def)
next
  fix csvText headers dataRows r i
  assume a: "csvRows csvText = headers # dataRows
        \<and> r < length dataRows \<and> i < length headers \<and> length (dataRows ! r) \<le> i
        \<and> headers ! i \<noteq> ''__proto__''"
  then have rows: "csvRows csvText = headers # dataRows" by simp
  show "map field (columnDefs (runPage (parseCSV csvText) p)) = headers"
    by (simp add: runPage_parseCSV [OF rows] comp_def)
  show "length (rowData (runPage (parseCSV csvText) p)) = length dataRows"
    by (simp add: runPage_parseCSV [OF rows])
  show "(rowData (runPage (parseCSV csvText) p) ! r) (headers ! i) = Some ''''"
    using a by (simp add: runPage_parseCSV [OF rows] formatRow_missing)
qed

theorem parseCSV_fills_short_rows_witness:
  "csvRows ''x,y\<newline>7'' = [''x'', ''y''] # [[''7'']]
   \<and> map field (columnDefs (runPage (parseCSV ''x,y\<newline>7'') initialPage)) = [''x'', ''y'']
   \<and> length (rowData (runPage (parseCSV ''x,y\<newline>7'') initialPage)) = 1
   \<and> (rowData (runPage (parseCSV ''x,y\<newline>7'') initialPage) ! 0) ''y'' = Some ''''"
proof -
  have rows: "csvRows ''x,y\<newline>7'' = [''x'', ''y''] # [[''7'']]"
    by (simp add: csvRows_def trim_def js_whitespace_def)
  have "csvRows ''x,y\<newline>7'' = [''x'', ''y''] # [[''7'']]
        \<and> (0::nat) < length [[''7'']] \<and> (1::nat) < length [''x'', ''y'']
        \<and> length ([[''7'']] ! 0) \<le> (1::nat)
        \<and> [''x'', ''y''] ! 1 \<noteq> ''__proto__''
        \<longrightarrow> map field (columnDefs (runPage (parseCSV ''x,y\<newline>7'') initialPage)) = [''x'', ''y'']
          \<and> length (rowData (runPage (parseCSV ''x,y\<newline>7'') initialPage)) = length [[''7'']]
          \<and> (rowData (runPage (parseCSV ''x,y\<newline>7'') initialPage) ! 0) ([''x'', ''y''] ! 1) = Some ''''"
    using parseCSV_fills_short_rows [of initialPage] by blast
  with rows show ?thesis by simp
qed

text \<open>
  Claim C2. The claim is that the empty input gives a preview with no column and no row.
  In the code \<open>"".trim().split("\n")\<close> is \<open>[""]\<close>, so \<open>rows\<close> is \<open>[[""]]\<close>: the
  guard \<open>if (!rows.length) return\<close> can never fire, and the preview gets one column,
  whose name is the empty string, and no row.
\<close>

theorem parseCSV_empty_input:
  "parseCSV '''' = [SetColumnDefs [\<lparr>headerName = '''', field = ''''\<rparr>], SetRowData []]
   \<and> columnDefs (runPage (parseCSV '''') initialPage) = [\<lparr>headerName = '''', field = ''''\<rparr>]
   \<and> rowData (runPage (parseCSV '''') initialPage) = []
   \<and> (\<forall>csvText. length (csvRows csvText) \<noteq> 0)"
  by (simp add: parseCSV_def csvRows_def trim_def runPage_def initialPage_def split_not_Nil)

text \<open>
  Claim C10 as stated does not hold for every header row: with the header \<open>__proto__\<close>
  written twice, the column list has two columns and the row object has no entry at all.
\<close>

theorem parseCSV_duplicate_headers_counterexample:
  "map field (columnDefs (runPage (parseCSV ''__proto__,__proto__\<newline>1,2'') initialPage))
     = [''__proto__'', ''__proto__'']
   \<and> rowData (runPage (parseCSV ''__proto__,__proto__\<newline>1,2'') initialPage) = [Map.empty]"
proof -
  have rows: "csvRows ''__proto__,__proto__\<newline>1,2''
      = [''__proto__'', ''__proto__''] # [[''1'', ''2'']]"
    by (simp add: csvRows_def trim_def js_whitespace_def)
  show ?thesis
    by (simp add: runPage_parseCSV [OF rows] formatRow_def assignProperty_def)
qed

text \<open>
  Claim C10, amended. The column list has one column for each header, duplicates included.
  In every row object, a name other than \<open>__proto__\<close> is a key exactly when it occurs
  among the headers, and under such a name the object holds the cell (the empty string
  when there is none) at the position of the last occurrence of that name among the
  headers; the cells at earlier occurrences are not in the object.
\<close>

theorem parseCSV_duplicate_headers:
  "csvRows csvText = headers # dataRows \<Longrightarrow>
   map field (columnDefs (runPage (parseCSV csvText) p)) = headers
   \<and> map headerName (columnDefs (runPage (parseCSV csvText) p)) = headers
   \<and> length (rowData (runPage (parseCSV csvText) p)) = length dataRows
   \<and> (\<forall>r h. r < length dataRows \<and> h \<noteq> ''__proto__'' \<longrightarrow>
        (h \<in> dom (rowData (runPage (parseCSV csvText) p) ! r) \<longleftrightarrow> h \<in> set headers))
   \<and> (\<forall>r j j0.
        r < length dataRows \<and> j < length headers \<and> headers ! j \<noteq> ''__proto__''
        \<and> (\<forall>j'. j < j' \<and> j' < length headers \<longrightarrow> headers ! j' \<noteq> headers ! j)
        \<and> j0 < length headers \<and> headers ! j0 = headers ! j
        \<longrightarrow> (rowData (runPage (parseCSV csvText) p) ! r) (headers ! j0)
              = Some (or_empty (js_index (dataRows ! r) j)))"
proof (intro conjI allI impI)
  assume rows: "csvRows csvText = headers # dataRows"
  show "map field (columnDefs (runPage (parseCSV csvText) p)) = headers"
    by (simp add: runPage_parseCSV [OF rows] comp_def)
  show "map headerName (columnDefs (runPage (parseCSV csvText) p)) = headers"
    by (simp add: runPage_parseCSV [OF rows] comp_def)
  show "length (rowData (runPage (parseCSV csvText) p)) = length dataRows"
    by (simp add: runPage_parseCSV [OF rows])
  {
    fix r h
    assume a: "r < length dataRows \<and> h \<noteq> ''__proto__''"
    then show "h \<in> dom (rowData (runPage (parseCSV csvText) p) ! r) \<longleftrightarrow> h \<in> set headers"
      by (simp add: runPage_parseCSV [OF rows] dom_formatRow)
  }
  {
    fix r j j0
    assume a: "r < length dataRows \<and> j < length headers \<and> headers ! j \<noteq> ''__proto__''
        \<and> (\<forall>j'. j < j' \<and> j' < length headers \<longrightarrow> headers ! j' \<noteq> headers ! j)
        \<and> j0 < length headers \<and> headers ! j0 = headers ! j"
    then have "formatRow headers (dataRows ! r) (headers ! j)
        = Some (or_empty (js_index (dataRows ! r) j))"
      by (simp add: formatRow_last)
    with a show "(rowData (runPage (parseCSV csvText) p) ! r) (headers ! j0)
        = Some (or_empty (js_index (dataRows ! r) j))"
      by (simp add: runPage_parseCSV [OF rows])
  }
qed

theorem parseCSV_duplicate_headers_witness:
  "csvRows ''a,a\<newline>1,2'' = [''a'', ''a''] # [[''1'', ''2'']]
   \<and> map field (columnDefs (runPage (parseCSV ''a,a\<newline>1,2'') initialPage)) = [''a'', ''a'']
   \<and> length (rowData (runPage (parseCSV ''a,a\<newline>1,2'') initialPage)) = 1
   \<and> ''a'' \<in> dom (rowData (runPage (parseCSV ''a,a\<newline>1,2'') initialPage) ! 0)
   \<and> ''b'' \<notin> dom (rowData (runPage (parseCSV ''a,a\<newline>1,2'') initialPage) ! 0)
   \<and> (rowData (runPage (parseCSV ''a,a\<newline>1,2'') initialPage) ! 0) ''a'' = Some ''2''"
proof -
  let ?rows = "rowData (runPage (parseCSV ''a,a\<newline>1,2'') initialPage)"
  have rows: "csvRows ''a,a\<newline>1,2'' = [''a'', ''a''] # [[''1'', ''2'']]"
    by (simp add: csvRows_def trim_def js_whitespace_def)
  note t = parseCSV_duplicate_headers [OF rows, of initialPage]
  from t have cols: "map field (columnDefs (runPage (parseCSV ''a,a\<newline>1,2'') initialPage))
      = [''a'', ''a'']"
    by (rule conjunct1)
  from t have len: "length ?rows = length [[''1'', ''2'']]"
    by (rule conjunct2 [THEN conjunct2, THEN conjunct1])
  from t have keys: "\<forall>r h. r < length [[''1'', ''2'']] \<and> h \<noteq> ''__proto__'' \<longrightarrow>
        (h \<in> dom (?rows ! r) \<longleftrightarrow> h \<in> set [''a'', ''a''])"
    by (rule conjunct2 [THEN conjunct2, THEN conjunct2, THEN conjunct1])
  from t have cells: "\<forall>r j j0.
        r < length [[''1'', ''2'']] \<and> j < length [''a'', ''a''] \<and> [''a'', ''a''] ! j \<noteq> ''__proto__''
        \<and> (\<forall>j'. j < j' \<and> j' < length [''a'', ''a''] \<longrightarrow> [''a'', ''a''] ! j' \<noteq> [''a'', ''a''] ! j)
        \<and> j0 < length [''a'', ''a''] \<and> [''a'', ''a''] ! j0 = [''a'', ''a''] ! j
        \<longrightarrow> (?rows ! r) ([''a'', ''a''] ! j0)
              = Some (or_empty (js_index ([[''1'', ''2'']] ! r) j))"
    by (rule conjunct2 [THEN conjunct2, THEN conjunct2, THEN conjunct2])
  have ka: "''a'' \<in> dom (?rows ! 0)"
    using keys [rule_format, of 0 "''a''"] by simp
  have kb: "''b'' \<notin> dom (?rows ! 0)"
    using keys [rule_format, of 0 "''b''"] by simp
  have last: "(0::nat) < length [[''1'', ''2'']] \<and> (1::nat) < length [''a'', ''a'']
        \<and> [''a'', ''a''] ! 1 \<noteq> ''__proto__''
        \<and> (\<forall>j'. 1 < j' \<and> j' < length [''a'', ''a''] \<longrightarrow> [''a'', ''a''] ! j' \<noteq> [''a'', ''a''] ! 1)
        \<and> (0::nat) < length [''a'', ''a''] \<and> [''a'', ''a''] ! 0 = [''a'', ''a''] ! 1"
    by auto
  have "(?rows ! 0) ([''a'', ''a''] ! 0) = Some (or_empty (js_index ([[''1'', ''2'']] ! 0) 1))"
    using cells [rule_format, of 0 1 0, OF last] .
  then have v: "(?rows ! 0) ''a'' = Some ''2''"
    by (simp add: js_index_def or_empty_def)
  from rows cols len ka kb v show ?thesis by simp
qed


section \<open>Properties of the form\<close>

lemma handleSubmit_unfold:
  "handleSubmit rt API_BASE fetch config d =
     SetLoading True # SetMessage None #
     (case appendFields rt (formData d) (fields' config) [] of
        Inl m \<Rightarrow> catchFinally m
      | Inr form \<Rightarrow>
          Post (API_BASE @ endpoint config) form #
          (case fetch (API_BASE @ endpoint config) form of
             NeverSettles \<Rightarrow> []
           | Rejected m \<Rightarrow> catchFinally m
           | Response ok body \<Rightarrow>
               (case body of
                  NotJson m \<Rightarrow> catchFinally m
                | Json result \<Rightarrow>
                    if \<not> ok
                    then (case getProperty rt result ''detail'' of
                            Inl m \<Rightarrow> catchFinally m
                          | Inr detail \<Rightarrow>
                              catchFinally (jsToString rt (detailOrDefault rt detail)))
                    else (case getProperty rt result ''message'' of
                            Inl m \<Rightarrow> catchFinally m
                          | Inr msg \<Rightarrow>
                              [SetMessage (Some \<lparr>type = ''success'', text' = msg\<rparr>),
                               SetLoading False]))))"
  by (simp add: handleSubmit_def handleSubmitRuns_def
      split: sum.splits fetchOutcome.splits bodyOutcome.splits)

lemma appendFields_all_truthy:
  "\<forall>f \<in> set fs. formValueTruthy (lookupField fd (name f)) \<Longrightarrow>
   appendFields rt fd fs form =
     Inr (form @ map (\<lambda>f. (name f,
            if name f = ''num_pairs''
            then EString (numberToString rt (toNumber rt (lookupField fd (name f))))
            else appendValue (lookupField fd (name f)))) fs)"
  by (induction fs arbitrary: form) auto

lemma appendFields_first_falsy:
  "\<forall>g \<in> set before. formValueTruthy (lookupField fd (name g)) \<Longrightarrow>
   \<not> formValueTruthy (lookupField fd (name f)) \<Longrightarrow>
   appendFields rt fd (before @ f # after) form = Inl (label f @ '' is required'')"
  by (induction before arbitrary: form) auto

lemma runDashboard_Cons [simp]:
  "runDashboard (e # es) d = runDashboard es (applyEffect e d)"
  by (simp add: runDashboard_def)

lemma runDashboard_Nil [simp]: "runDashboard [] d = d"
  by (simp add: runDashboard_def)

lemma posts_catchFinally [simp]: "posts (catchFinally m) = []"
  by (simp add: catchFinally_def)

lemma handleSubmit_posts:
  "appendFields rt (formData d) (fields' config) [] = Inr form \<Longrightarrow>
   posts (handleSubmit rt API_BASE fetch config d) = [(API_BASE @ endpoint config, form)]"
  by (simp add: handleSubmit_unfold
      split: fetchOutcome.splits bodyOutcome.splits sum.splits)

lemma registry_rag_qa: "datasetConfigs ''rag_qa'' = Some rag_qa"
  by (simp add: datasetConfigs_def)


lemmas field_defs =
  textField_def numberField_def selectField_def fileField_def textareaField_def

lemma ragQaForm_filled:
  "\<forall>f \<in> set (fields' rag_qa). formValueTruthy (lookupField (formData ragQaForm) (name f))"
  by (simp add: rag_qa_def ragQaForm_def initialDashboard_def field_defs lookupField_def)


lemma nlSqlForm_lacks_context:
  "\<exists>f \<in> set (fields' rag_qa). \<not> formValueTruthy (lookupField (formData nlSqlForm) (name f))"
  by (simp add: rag_qa_def nlSqlForm_def initialDashboard_def field_defs lookupField_def)

lemma ragQa_num_pairs:
  "numberToString sampleRuntime (toNumber sampleRuntime (lookupField (formData ragQaForm) ''num_pairs''))
     = ''5''"
  by (simp add: ragQaForm_def initialDashboard_def lookupField_def sampleRuntime_def showNat.simps)

text \<open>
  Claim C3. For every recipe of the registry and every content of \<open>formData\<close> in which
  some field of the recipe has a falsy value (never stored, \<open>undefined\<close> or the empty
  string), the submit handler retains an error message whose text is the label of the
  first such field in declaration order, followed by \<open>is required\<close>, and issues no POST.
\<close>

theorem handleSubmit_validation_error:
  assumes "datasetConfigs key = Some config"
    and "\<exists>f \<in> set (fields' config). \<not> formValueTruthy (lookupField (formData d) (name f))"
  shows "\<exists>before f after.
     fields' config = before @ f # after
     \<and> (\<forall>g \<in> set before. formValueTruthy (lookupField (formData d) (name g)))
     \<and> \<not> formValueTruthy (lookupField (formData d) (name f))
     \<and> handleSubmit rt API_BASE fetch config d =
         [SetLoading True, SetMessage None,
          SetMessage (Some \<lparr>type = ''error'', text' = Some (JStr (label f @ '' is required''))\<rparr>),
          SetLoading False]
     \<and> posts (handleSubmit rt API_BASE fetch config d) = []
     \<and> message (runDashboard (handleSubmit rt API_BASE fetch config d) d) =
         Some \<lparr>type = ''error'', text' = Some (JStr (label f @ '' is required''))\<rparr>"
proof -
  from assms(2) obtain before f after where
    s: "fields' config = before @ f # after"
    and f: "\<not> formValueTruthy (lookupField (formData d) (name f))"
    and b: "\<forall>g \<in> set before. \<not> \<not> formValueTruthy (lookupField (formData d) (name g))"
    using split_list_first_prop [of "fields' config"
        "\<lambda>f. \<not> formValueTruthy (lookupField (formData d) (name f))"]
    by blast
  from b have b': "\<forall>g \<in> set before. formValueTruthy (lookupField (formData d) (name g))"
    by simp
  have a: "appendFields rt (formData d) (fields' config) [] = Inl (label f @ '' is required'')"
    unfolding s using b' f by (rule appendFields_first_falsy)
  have h: "handleSubmit rt API_BASE fetch config d =
         [SetLoading True, SetMessage None,
          SetMessage (Some \<lparr>type = ''error'', text' = Some (JStr (label f @ '' is required''))\<rparr>),
          SetLoading False]"
    by (simp add: handleSubmit_unfold a catchFinally_def)
  show ?thesis
    apply (rule exI [of _ before], rule exI [of _ f], rule exI [of _ after])
    using s b' f by (simp add: h)
qed

theorem handleSubmit_validation_error_witness:
  "datasetConfigs ''rag_qa'' = Some rag_qa
   \<and> \<not> formValueTruthy (lookupField (formData nlSqlForm) ''context_file'')
   \<and> (\<exists>before f after.
        fields' rag_qa = before @ f # after
        \<and> handleSubmit sampleRuntime ''http://api'' (respondsWith True (NotJson [])) rag_qa nlSqlForm =
            [SetLoading True, SetMessage None,
             SetMessage (Some \<lparr>type = ''error'', text' = Some (JStr (label f @ '' is required''))\<rparr>),
             SetLoading False])
   \<and> posts (handleSubmit sampleRuntime ''http://api'' (respondsWith True (NotJson [])) rag_qa nlSqlForm) = []
   \<and> handleSubmit sampleRuntime ''http://api'' (respondsWith True (NotJson [])) rag_qa nlSqlForm =
        [SetLoading True, SetMessage None,
         SetMessage (Some \<lparr>type = ''error'',
            text' = Some (JStr ''Context File (.txt / .pdf) is required'')\<rparr>),
         SetLoading False]"
proof -
  have absent: "\<not> formValueTruthy (lookupField (formData nlSqlForm) ''context_file'')"
    by (simp add: nlSqlForm_def initialDashboard_def lookupField_def)
  have direct: "handleSubmit sampleRuntime ''http://api'' (respondsWith True (NotJson [])) rag_qa nlSqlForm =
        [SetLoading True, SetMessage None,
         SetMessage (Some \<lparr>type = ''error'',
            text' = Some (JStr ''Context File (.txt / .pdf) is required'')\<rparr>),
         SetLoading False]"
    by (simp add: handleSubmit_unfold rag_qa_def nlSqlForm_def initialDashboard_def field_defs
        lookupField_def catchFinally_def)
  from handleSubmit_validation_error [OF registry_rag_qa nlSqlForm_lacks_context,
      of sampleRuntime "''http://api''" "respondsWith True (NotJson [])"]
  have "(\<exists>before f after.
        fields' rag_qa = before @ f # after
        \<and> handleSubmit sampleRuntime ''http://api'' (respondsWith True (NotJson [])) rag_qa nlSqlForm =
            [SetLoading True, SetMessage None,
             SetMessage (Some \<lparr>type = ''error'', text' = Some (JStr (label f @ '' is required''))\<rparr>),
             SetLoading False])
     \<and> posts (handleSubmit sampleRuntime ''http://api'' (respondsWith True (NotJson [])) rag_qa nlSqlForm) = []"
    by blast
  with registry_rag_qa absent direct show ?thesis by blast
qed

text \<open>
  Claim C4. For every recipe of the registry and every content of \<open>formData\<close> in which
  every field of the recipe has a truthy value, the submit handler issues exactly one POST,
  to the base URL followed by the endpoint of the recipe. Its body has one entry for each
  field, in the order of the fields and under the name of the field: for a field named
  \<open>num_pairs\<close> the string of \<open>Number\<close> applied to the stored value, for every other
  field the stored value as \<open>FormData.append\<close> keeps it.
\<close>

theorem handleSubmit_posts_every_field:
  assumes "datasetConfigs key = Some config"
    and "\<forall>f \<in> set (fields' config). formValueTruthy (lookupField (formData d) (name f))"
  shows "\<exists>form.
      posts (handleSubmit rt API_BASE fetch config d) = [(API_BASE @ endpoint config, form)]
    \<and> length form = length (fields' config)
    \<and> map fst form = map name (fields' config)
    \<and> (\<forall>i. i < length (fields' config) \<longrightarrow>
         snd (form ! i) =
           (if name (fields' config ! i) = ''num_pairs''
            then EString (numberToString rt
                   (toNumber rt (lookupField (formData d) (name (fields' config ! i)))))
            else appendValue (lookupField (formData d) (name (fields' config ! i)))))"
proof -
  let ?entry = "\<lambda>f. (name f,
            if name f = ''num_pairs''
            then EString (numberToString rt (toNumber rt (lookupField (formData d) (name f))))
            else appendValue (lookupField (formData d) (name f)))"
  have a: "appendFields rt (formData d) (fields' config) [] = Inr (map ?entry (fields' config))"
    using appendFields_all_truthy [OF assms(2), of rt "[]"] by simp
  show ?thesis
  proof (intro exI conjI allI impI)
    show "posts (handleSubmit rt API_BASE fetch config d)
        = [(API_BASE @ endpoint config, map ?entry (fields' config))]"
      using a by (rule handleSubmit_posts)
    show "length (map ?entry (fields' config)) = length (fields' config)" by simp
    show "map fst (map ?entry (fields' config)) = map name (fields' config)"
      by (simp add: comp_def)
    fix i assume "i < length (fields' config)"
    then show "snd (map ?entry (fields' config) ! i) =
           (if name (fields' config ! i) = ''num_pairs''
            then EString (numberToString rt
                   (toNumber rt (lookupField (formData d) (name (fields' config ! i)))))
            else appendValue (lookupField (formData d) (name (fields' config ! i))))"
      by simp
  qed
qed

theorem handleSubmit_posts_every_field_witness:
  "datasetConfigs ''rag_qa'' = Some rag_qa
   \<and> (\<exists>form.
        posts (handleSubmit sampleRuntime ''http://api'' (respondsWith True (NotJson [])) rag_qa ragQaForm)
          = [(''http://api/generate/rag_qa'', form)]
        \<and> length form = 5
        \<and> map fst form = [''context_file'', ''model'', ''difficulty'', ''num_pairs'', ''output_name'']
        \<and> snd (form ! 3) = EString ''5''
        \<and> snd (form ! 0) = EFile (File ''notes.txt'')
        \<and> snd (form ! 1) = EString ''llama3'')"
proof -
  from handleSubmit_posts_every_field [OF registry_rag_qa ragQaForm_filled,
      of sampleRuntime "''http://api''" "respondsWith True (NotJson [])"]
  obtain form where
    all: "posts (handleSubmit sampleRuntime ''http://api'' (respondsWith True (NotJson [])) rag_qa ragQaForm)
          = [(''http://api'' @ endpoint rag_qa, form)]
      \<and> length form = length (fields' rag_qa)
      \<and> map fst form = map name (fields' rag_qa)
      \<and> (\<forall>i. i < length (fields' rag_qa) \<longrightarrow>
         snd (form ! i) =
           (if name (fields' rag_qa ! i) = ''num_pairs''
            then EString (numberToString sampleRuntime
                   (toNumber sampleRuntime (lookupField (formData ragQaForm) (name (fields' rag_qa ! i)))))
            else appendValue (lookupField (formData ragQaForm) (name (fields' rag_qa ! i)))))"
    by (erule exE)
  then have p: "posts (handleSubmit sampleRuntime ''http://api'' (respondsWith True (NotJson [])) rag_qa ragQaForm)
          = [(''http://api'' @ endpoint rag_qa, form)]"
    and l: "length form = length (fields' rag_qa)"
    and n: "map fst form = map name (fields' rag_qa)"
    and v: "\<forall>i. i < length (fields' rag_qa) \<longrightarrow>
         snd (form ! i) =
           (if name (fields' rag_qa ! i) = ''num_pairs''
            then EString (numberToString sampleRuntime
                   (toNumber sampleRuntime (lookupField (formData ragQaForm) (name (fields' rag_qa ! i)))))
            else appendValue (lookupField (formData ragQaForm) (name (fields' rag_qa ! i))))"
    by (rule conjunct1, rule conjunct2 [THEN conjunct1],
        rule conjunct2 [THEN conjunct2, THEN conjunct1],
        rule conjunct2 [THEN conjunct2, THEN conjunct2])
  have f: "fields' rag_qa =
     [fileField ''context_file'' ''Context File (.txt / .pdf)'',
      textField ''model'' ''Model'',
      selectField ''difficulty'' ''Difficulty'' [''easy'', ''medium'', ''hard''],
      numberField ''num_pairs'' ''Number of QA Pairs'' None,
      textField ''output_name'' ''Output Name'']"
    by (simp add: rag_qa_def)
  have v3: "snd (form ! 3) = EString ''5''"
    using v [rule_format, of 3] by (simp add: f numberField_def ragQa_num_pairs)
  have v0: "snd (form ! 0) = EFile (File ''notes.txt'')"
    using v [rule_format, of 0]
    by (simp add: f fileField_def ragQaForm_def initialDashboard_def lookupField_def)
  have v1: "snd (form ! 1) = EString ''llama3''"
    using v [rule_format, of 1]
    by (simp add: f textField_def ragQaForm_def initialDashboard_def lookupField_def)
  have p': "posts (handleSubmit sampleRuntime ''http://api'' (respondsWith True (NotJson [])) rag_qa ragQaForm)
          = [(''http://api/generate/rag_qa'', form)]"
    using p by (simp add: rag_qa_def)
  have l': "length form = 5" using l by (simp add: f)
  have n': "map fst form = [''context_file'', ''model'', ''difficulty'', ''num_pairs'', ''output_name'']"
    using n by (simp add: f field_defs)
  show ?thesis
    by (intro conjI exI [of _ form]) (rule registry_rag_qa p' l' n' v3 v0 v1)+
qed








section \<open>Properties of the navigation shell\<close>

text \<open>
  Claim C5 as stated does not hold: a model name typed on the form of the first load is
  still in \<open>formData\<close> after another recipe has been selected in the sidebar.
\<close>

theorem selectRecipe_resets_counterexample:
  "mountedDashboard (selectRecipe ''rag_qa'' modelTyped)
     = Some (initialDashboard\<lparr>formData := [''model'' \<mapsto> Str ''llama3'']\<rparr>)"
  by (simp add: selectRecipe_def modelTyped_def editField_def initialApp_def render_def
      handleChange_def textField_def initialDashboard_def)

text \<open>
  Claim C5, amended. A change of the selected recipe while the form is displayed leaves the
  state of the form, \<open>formData\<close> included, as it was. \<open>formData\<close> is empty when the form
  is mounted: on the first load, and when a recipe is selected from the dataset browser.
\<close>

theorem selectRecipe_keeps_formData:
  "(activePage a = ''generate'' \<and> mountedDashboard a = Some d \<longrightarrow>
      mountedDashboard (selectRecipe key a) = Some d)
   \<and> mountedDashboard (selectRecipe key (viewDatasets a)) = Some initialDashboard
   \<and> formData (initialDashboard :: 'n dashboard) = Map.empty
   \<and> mountedDashboard (initialApp :: 'n app) = Some initialDashboard"
  by (simp add: selectRecipe_def viewDatasets_def render_def initialDashboard_def initialApp_def)

theorem selectRecipe_keeps_formData_witness:
  "activePage modelTyped = ''generate''
   \<and> mountedDashboard modelTyped = Some (initialDashboard\<lparr>formData := [''model'' \<mapsto> Str ''llama3'']\<rparr>)
   \<and> mountedDashboard (selectRecipe ''nl_sql'' modelTyped)
       = Some (initialDashboard\<lparr>formData := [''model'' \<mapsto> Str ''llama3'']\<rparr>)
   \<and> mountedDashboard (selectRecipe ''nl_sql'' (viewDatasets modelTyped)) = Some initialDashboard"
proof -
  have a: "activePage modelTyped = ''generate''"
    by (simp add: modelTyped_def editField_def initialApp_def render_def)
  have m: "mountedDashboard modelTyped
      = Some (initialDashboard\<lparr>formData := [''model'' \<mapsto> Str ''llama3'']\<rparr>)"
    by (simp add: modelTyped_def editField_def initialApp_def render_def
        handleChange_def textField_def initialDashboard_def)
  note t = selectRecipe_keeps_formData
    [of modelTyped "initialDashboard\<lparr>formData := [''model'' \<mapsto> Str ''llama3'']\<rparr>" "''nl_sql''"]
  have c1: "mountedDashboard (selectRecipe ''nl_sql'' modelTyped)
       = Some (initialDashboard\<lparr>formData := [''model'' \<mapsto> Str ''llama3'']\<rparr>)"
    using t [THEN conjunct1, rule_format, OF conjI, OF a m] .
  have c2: "mountedDashboard (selectRecipe ''nl_sql'' (viewDatasets modelTyped)) = Some initialDashboard"
    using t [THEN conjunct2, THEN conjunct1] .
  show ?thesis by (intro conjI) (rule a m c1 c2)+
qed


section \<open>Properties of the dataset browser\<close>

lemma runPage_Cons [simp]: "runPage (e # es) p = runPage es (applyPageEffect e p)"
  by (simp add: runPage_def)

lemma runPage_Nil [simp]: "runPage [] p = p"
  by (simp add: runPage_def)

text \<open>
  Claim C8. A change of the selected dataset type to another key issues exactly one list
  request, \<open>GET /datasets?dataset_type=<key>\<close> for the new key, and when that request resolves
  its list replaces the list displayed before, whatever it was.
\<close>

theorem changeDatasetType_fetches_once:
  "key \<noteq> datasetType p \<Longrightarrow>
   listFetches (changeDatasetType get key p) = [BASE_URL @ ''/datasets?dataset_type='' @ key]
   \<and> datasetType (runPage (changeDatasetType get key p) p) = key
   \<and> (\<forall>files. get (BASE_URL @ ''/datasets?dataset_type='' @ key) = ListResolved files \<longrightarrow>
         datasets (runPage (changeDatasetType get key p) p) = files)"
  by (auto simp: changeDatasetType_def fetchDatasets_def fetchDatasetsRuns_def
      split: listOutcome.splits)

theorem changeDatasetType_fetches_once_witness:
  "''rag_qa'' \<noteq> datasetType (initialPage\<lparr>datasets := [''old.csv'']\<rparr>)
   \<and> listFetches (changeDatasetType listsTwoFiles ''rag_qa'' (initialPage\<lparr>datasets := [''old.csv'']\<rparr>))
       = [''http://localhost:8000/datasets?dataset_type=rag_qa'']
   \<and> datasets (runPage (changeDatasetType listsTwoFiles ''rag_qa'' (initialPage\<lparr>datasets := [''old.csv'']\<rparr>))
         (initialPage\<lparr>datasets := [''old.csv'']\<rparr>)) = [''a.csv'', ''b.csv'']"
proof -
  have h: "''rag_qa'' \<noteq> datasetType (initialPage\<lparr>datasets := [''old.csv'']\<rparr>)"
    by (simp add: initialPage_def)
  have g: "listsTwoFiles (BASE_URL @ ''/datasets?dataset_type='' @ ''rag_qa'')
     = ListResolved [''a.csv'', ''b.csv'']"
    by (simp add: listsTwoFiles_def)
  from changeDatasetType_fetches_once [OF h, of listsTwoFiles] g h
  show ?thesis by (simp add: BASE_URL_def)
qed

text \<open>
  Claim C9 as stated does not hold when the selection changes while the DELETE request is
  pending: the handler goes on with the \<open>fetchDatasets\<close> of the render in which the
  action was taken. Here a file of the type \<open>sft\<close> is deleted and \<open>rag_qa\<close> is
  selected meanwhile; the list requested after the resolution is the one of \<open>sft\<close>, and
  it replaces the list displayed for \<open>rag_qa\<close>.
\<close>

theorem deleteDataset_stale_type_counterexample:
  "datasetType typeChangedMeanwhile = ''rag_qa''
   \<and> datasets typeChangedMeanwhile = [''other.csv'']
   \<and> deleteDataset deleteSucceeds listsPerType ''sft.csv'' sftListed =
       [[HttpDelete ''http://localhost:8000/datasets/sft/sft.csv''],
        [HttpGet ''http://localhost:8000/datasets?dataset_type=sft''],
        [SetDatasets [''sft.csv'']]]
   \<and> datasetType (runPage (concat (tl (deleteDataset deleteSucceeds listsPerType ''sft.csv'' sftListed)))
        typeChangedMeanwhile) = ''rag_qa''
   \<and> datasets (runPage (concat (tl (deleteDataset deleteSucceeds listsPerType ''sft.csv'' sftListed)))
        typeChangedMeanwhile) = [''sft.csv'']"
  by (simp add: typeChangedMeanwhile_def sftListed_def initialPage_def changeDatasetType_def
      fetchDatasets_def fetchDatasetsRuns_def deleteDataset_def listsPerType_def
      deleteSucceeds_def BASE_URL_def)

text \<open>
  Claim C9, amended. A delete action first sends the DELETE request, once. When that
  request resolves, exactly one list request follows, in the next run of the handler, for
  the dataset type that was selected when the action was taken, whatever the list
  displayed before. When the request does not resolve, no list request follows.
\<close>

theorem deleteDataset_refetches_once:
  "hd (deleteDataset del get filename p)
     = [HttpDelete (BASE_URL @ ''/datasets/'' @ datasetType p @ ''/'' @ filename)]
   \<and> deleteRequests (concat (deleteDataset del get filename p))
     = [BASE_URL @ ''/datasets/'' @ datasetType p @ ''/'' @ filename]
   \<and> (del (BASE_URL @ ''/datasets/'' @ datasetType p @ ''/'' @ filename) = DeleteResolved \<longrightarrow>
        1 < length (deleteDataset del get filename p)
        \<and> deleteDataset del get filename p ! 1
            = [HttpGet (BASE_URL @ ''/datasets?dataset_type='' @ datasetType p)]
        \<and> listFetches (concat (deleteDataset del get filename p))
            = [BASE_URL @ ''/datasets?dataset_type='' @ datasetType p]
        \<and> listFetches (concat (deleteDataset del get filename (p\<lparr>datasets := ds\<rparr>)))
            = [BASE_URL @ ''/datasets?dataset_type='' @ datasetType p])
   \<and> (del (BASE_URL @ ''/datasets/'' @ datasetType p @ ''/'' @ filename) \<noteq> DeleteResolved \<longrightarrow>
        deleteDataset del get filename p
          = [[HttpDelete (BASE_URL @ ''/datasets/'' @ datasetType p @ ''/'' @ filename)]])"
  by (auto simp: deleteDataset_def fetchDatasetsRuns_def
      split: deleteOutcome.splits listOutcome.splits)

theorem deleteDataset_refetches_once_witness:
  "deleteSucceeds (BASE_URL @ ''/datasets/'' @ datasetType sftListed @ ''/'' @ ''sft.csv'')
     = DeleteResolved
   \<and> hd (deleteDataset deleteSucceeds listsPerType ''sft.csv'' sftListed)
       = [HttpDelete ''http://localhost:8000/datasets/sft/sft.csv'']
   \<and> deleteDataset deleteSucceeds listsPerType ''sft.csv'' sftListed ! 1
       = [HttpGet ''http://localhost:8000/datasets?dataset_type=sft'']
   \<and> listFetches (concat (deleteDataset deleteSucceeds listsPerType ''sft.csv'' sftListed))
       = [''http://localhost:8000/datasets?dataset_type=sft'']
   \<and> listFetches (concat (deleteDataset deleteSucceeds listsPerType ''sft.csv''
         (sftListed\<lparr>datasets := []\<rparr>)))
       = [''http://localhost:8000/datasets?dataset_type=sft'']"
proof -
  have h: "deleteSucceeds (BASE_URL @ ''/datasets/'' @ datasetType sftListed @ ''/'' @ ''sft.csv'')
     = DeleteResolved"
    by (simp add: deleteSucceeds_def)
  note t = deleteDataset_refetches_once [where del = deleteSucceeds and p = sftListed
      and filename = "''sft.csv''" and get = listsPerType and ds = "[]"]
  from t have first: "hd (deleteDataset deleteSucceeds listsPerType ''sft.csv'' sftListed)
     = [HttpDelete (BASE_URL @ ''/datasets/'' @ datasetType sftListed @ ''/'' @ ''sft.csv'')]"
    by (rule conjunct1)
  from t h have after:
    "1 < length (deleteDataset deleteSucceeds listsPerType ''sft.csv'' sftListed)
     \<and> deleteDataset deleteSucceeds listsPerType ''sft.csv'' sftListed ! 1
         = [HttpGet (BASE_URL @ ''/datasets?dataset_type='' @ datasetType sftListed)]
     \<and> listFetches (concat (deleteDataset deleteSucceeds listsPerType ''sft.csv'' sftListed))
         = [BASE_URL @ ''/datasets?dataset_type='' @ datasetType sftListed]
     \<and> listFetches (concat (deleteDataset deleteSucceeds listsPerType ''sft.csv''
           (sftListed\<lparr>datasets := []\<rparr>)))
         = [BASE_URL @ ''/datasets?dataset_type='' @ datasetType sftListed]"
    by (rule conjunct2 [THEN conjunct2, THEN conjunct1, THEN mp])
  from h first after show ?thesis
    by (simp add: BASE_URL_def sftListed_def initialPage_def)
qed

end
